theory Spec2Isabelle
  imports Main "HOL-Library.Word"
begin

unbundle bit_operations_syntax

section \<open>Wire header of the round-robin protocol\<close>

text \<open>
  An \<open>evbuffer\<close> is a queue of bytes; the model keeps its contents as a list, the
  front of the buffer being the head of the list.
\<close>

type_synonym byte = "8 word"
type_synonym evbuffer = "byte list"

text \<open>\<open>struct rr_header\<close>: circuit id, offset, length and flags.\<close>

record rr_header =
  h_ckt_id :: "64 word"
  h_offset :: "32 word"
  h_length :: "16 word"
  h_flags :: "16 word"

definition RR_WIRE_HDR_LEN :: nat where
  "RR_WIRE_HDR_LEN = 16"

definition RR_MIN_BLOCK :: nat where
  "RR_MIN_BLOCK = RR_WIRE_HDR_LEN * 2"

definition RR_MAX_BLOCK :: nat where
  "RR_MAX_BLOCK = 32767"

definition RR_F_SYN :: "16 word" where
  "RR_F_SYN = 0x0001"

definition RR_F_FIN :: "16 word" where
  "RR_F_FIN = 0x0002"

definition RR_F_CHAFF :: "16 word" where
  "RR_F_CHAFF = 0x0004"

text \<open>
  \<open>rr_write_header\<close> fills the sixteen bytes of the wire header, most significant
  byte first; each byte is the masked field shifted down and truncated to eight bits.
\<close>

definition rr_write_header :: "rr_header \<Rightarrow> byte list" where
  "rr_write_header hdr =
    [ ucast (drop_bit 56 (h_ckt_id hdr AND 0xFF00000000000000)),
      ucast (drop_bit 48 (h_ckt_id hdr AND 0x00FF000000000000)),
      ucast (drop_bit 40 (h_ckt_id hdr AND 0x0000FF0000000000)),
      ucast (drop_bit 32 (h_ckt_id hdr AND 0x000000FF00000000)),
      ucast (drop_bit 24 (h_ckt_id hdr AND 0x00000000FF000000)),
      ucast (drop_bit 16 (h_ckt_id hdr AND 0x0000000000FF0000)),
      ucast (drop_bit 8 (h_ckt_id hdr AND 0x000000000000FF00)),
      ucast (drop_bit 0 (h_ckt_id hdr AND 0x00000000000000FF)),
      ucast (drop_bit 24 (h_offset hdr AND 0xFF000000)),
      ucast (drop_bit 16 (h_offset hdr AND 0x00FF0000)),
      ucast (drop_bit 8 (h_offset hdr AND 0x0000FF00)),
      ucast (drop_bit 0 (h_offset hdr AND 0x000000FF)),
      ucast (drop_bit 8 (h_length hdr AND 0xFF00)),
      ucast (drop_bit 0 (h_length hdr AND 0x00FF)),
      ucast (drop_bit 8 (h_flags hdr AND 0xFF00)),
      ucast (drop_bit 0 (h_flags hdr AND 0x00FF)) ]"

text \<open>
  \<open>rr_peek_header\<close> copies the first sixteen bytes out of the buffer without
  consuming them and adds up the shifted bytes of each field. It returns \<open>-1\<close>
  (here \<open>None\<close>) only when fewer than sixteen bytes are buffered.
\<close>

definition rr_peek_header :: "evbuffer \<Rightarrow> rr_header option" where
  "rr_peek_header buf =
    (if length buf < RR_WIRE_HDR_LEN then None
     else let wire_header = take RR_WIRE_HDR_LEN buf in
       Some \<lparr> h_ckt_id = push_bit 56 (ucast (wire_header ! 0)) +
                         push_bit 48 (ucast (wire_header ! 1)) +
                         push_bit 40 (ucast (wire_header ! 2)) +
                         push_bit 32 (ucast (wire_header ! 3)) +
                         push_bit 24 (ucast (wire_header ! 4)) +
                         push_bit 16 (ucast (wire_header ! 5)) +
                         push_bit 8 (ucast (wire_header ! 6)) +
                         push_bit 0 (ucast (wire_header ! 7)),
              h_offset = push_bit 24 (ucast (wire_header ! 8)) +
                         push_bit 16 (ucast (wire_header ! 9)) +
                         push_bit 8 (ucast (wire_header ! 10)) +
                         push_bit 0 (ucast (wire_header ! 11)),
              h_length = push_bit 8 (ucast (wire_header ! 12)) +
                         push_bit 0 (ucast (wire_header ! 13)),
              h_flags = push_bit 8 (ucast (wire_header ! 14)) +
                        push_bit 0 (ucast (wire_header ! 15)) \<rparr>)"

section \<open>Sequence arithmetic\<close>

text \<open>\<open>mod32_lt\<close> and \<open>mod32_le\<close> compare offsets through their 32-bit difference.\<close>

definition mod32_lt :: "32 word \<Rightarrow> 32 word \<Rightarrow> bool" where
  "mod32_lt s t = (let d = t - s in 0 < d \<and> d < 0x80000000)"

definition mod32_le :: "32 word \<Rightarrow> 32 word \<Rightarrow> bool" where
  "mod32_le s t = (let d = t - s in d < 0x80000000)"

section \<open>Buffers, library results and outcomes\<close>

text \<open>
  The buffer library, the allocator and the random source are not part of the protocol
  code. Their failures are inputs of the model: each field of \<open>evlib\<close> tells whether
  the calls of one primitive made during a protocol operation succeed: a buffer from
  \<open>evbuffer_new\<close>, a circuit from \<open>circuit_create\<close>, true from
  \<open>circuit_open_upstream\<close>, the bytes moved by \<open>evbuffer_remove_buffer\<close>, and the
  status \<open>0\<close> from the others.
  \<open>reserve_space n\<close> is \<open>None\<close> when \<open>evbuffer_reserve_space\<close> does not return one
  extent, and otherwise the \<open>iov_len\<close> of the extent it hands out. What the calls do
  to the buffers when they succeed is written out where they are used: appending,
  prepending, copying out and draining are the list operations.
\<close>

record evlib =
  new_ok :: bool
  reserve_space :: "nat \<Rightarrow> nat option"
  commit_ok :: bool
  add_ok :: bool
  prepend_ok :: bool
  drain_ok :: bool
  remove_ok :: bool
  random_ok :: bool
  create_ok :: bool
  open_ok :: bool

definition lib_ok :: evlib where
  "lib_ok = \<lparr> new_ok = True, reserve_space = (\<lambda>n. Some n), commit_ok = True,
     add_ok = True, prepend_ok = True, drain_ok = True, remove_ok = True,
     random_ok = True, create_ok = True, open_ok = True \<rparr>"

text \<open>
  A call either returns a status (\<open>0\<close> or \<open>-1\<close>) with the state it leaves, or the
  process stops: a failed \<open>obfs_assert\<close> or \<open>log_error\<close> (which does not return), or
  an index outside a \<open>smartlist\<close>.
\<close>

datatype fault = AssertFailed | LogError | IndexOutOfRange

datatype 'a outcome = is_Crash: Crash (fault: fault) | is_Return: Return (status: int) (state: 'a)

section \<open>Transmit subroutines\<close>

text \<open>
  \<open>rr_send_block\<close> builds header and payload in \<open>block\<close>, appends \<open>block\<close> to
  \<open>dest\<close> and only then drains \<open>source\<close>. The result holds the three buffers
  \<open>(dest, source, block)\<close>. On the failure paths the reserved space is given back and
  \<open>block\<close> is emptied.
\<close>

definition rr_send_block ::
  "evlib \<Rightarrow> evbuffer \<Rightarrow> evbuffer \<Rightarrow> evbuffer \<Rightarrow> 64 word \<Rightarrow> 32 word \<Rightarrow> 16 word \<Rightarrow> 16 word
    \<Rightarrow> (evbuffer \<times> evbuffer \<times> evbuffer) outcome" where
  "rr_send_block lib dest source block circuit_id offset len flags =
    (if length block \<noteq> 0 then Crash AssertFailed
     else if length dest < unat len then Crash AssertFailed
     else case reserve_space lib (unat len + RR_WIRE_HDR_LEN) of
       None \<Rightarrow> Return (- 1) (dest, source, block)
     | Some iov_len \<Rightarrow>
         if iov_len < unat len + RR_WIRE_HDR_LEN then Return (- 1) (dest, source, [])
         else
           let hdr = \<lparr> h_ckt_id = circuit_id, h_offset = offset, h_length = len,
                       h_flags = flags \<rparr>;
               copied = take (unat len) source
           in if length copied \<noteq> unat len then Return (- 1) (dest, source, [])
              else if \<not> commit_ok lib then Return (- 1) (dest, source, [])
              else if \<not> add_ok lib then Return (- 1) (dest, source, [])
              else if \<not> drain_ok lib then Crash LogError
              else Return 0 (dest @ rr_write_header hdr @ copied, drop (unat len) source, []))"

section \<open>Circuits and connections\<close>

text \<open>
  An element of the reassembly queue. The queue of the source is a circular
  doubly-linked list whose sentinel has no data; the model keeps the real elements as a
  list in queue order, so that \<open>queue->next\<close> is the head of the list, \<open>queue->prev\<close>
  its last element, and the sentinel is met where the list ends.
\<close>

record rr_reassembly_elt =
  e_data :: evbuffer
  e_offset :: "32 word"
  e_length :: "16 word"
  e_flags :: "16 word"

text \<open>
  \<open>roundrobin_circuit_t\<close>, with connections named by handles.

  Modelled from the spec: the generic \<open>circuit_t\<close> and the functions \<open>circuit_recv_eof\<close>,
  \<open>circuit_arm_axe_timer\<close>, \<open>circuit_disarm_axe_timer\<close> and \<open>circuit_close\<close> are not among
  the sources. The first five fields stand for what the protocol does to them: the two
  directions of \<open>up_buffer\<close>, whether end of stream was signalled upstream, the axe
  timer (milliseconds, when armed) and whether the circuit was closed.
\<close>

record roundrobin_circuit_t =
  up_input :: evbuffer
  up_output :: evbuffer
  up_eof :: bool
  axe_timer :: "nat option"
  closed :: bool
  reassembly_queue :: "rr_reassembly_elt list"
  xmit_pending :: evbuffer
  downstreams :: "nat list"
  circuit_id :: "64 word"
  send_offset :: "32 word"
  recv_offset :: "32 word"
  next_block_size :: "16 word"
  next_down :: "16 word"
  received_syn :: bool
  received_fin :: bool
  sent_syn :: bool
  sent_fin :: bool

text \<open>
  Modelled from the spec: \<open>conn_t\<close> of the generic connection module, which is not
  among the sources: the circuit the connection is attached to, its inbound and outbound
  buffers, and whether \<open>conn_send_eof\<close> was called on it.
\<close>

record conn_t =
  conn_circuit :: "nat option"
  inbound :: evbuffer
  outbound :: evbuffer
  eof_sent :: bool

text \<open>\<open>roundrobin_circuit_create\<close>: the structure comes zeroed from \<open>xzalloc\<close>; the queue
  is made empty and the pending buffer and the list of downstreams are created empty.\<close>

definition roundrobin_circuit_create :: roundrobin_circuit_t where
  "roundrobin_circuit_create =
    \<lparr> up_input = [], up_output = [], up_eof = False, axe_timer = None, closed = False,
      reassembly_queue = [], xmit_pending = [], downstreams = [],
      circuit_id = 0, send_offset = 0, recv_offset = 0, next_block_size = 0, next_down = 0,
      received_syn = False, received_fin = False, sent_syn = False, sent_fin = False \<rparr>"

definition roundrobin_circuit_add_downstream ::
  "roundrobin_circuit_t \<Rightarrow> nat \<Rightarrow> roundrobin_circuit_t" where
  "roundrobin_circuit_add_downstream ckt conn =
    ckt \<lparr> downstreams := downstreams ckt @ [conn], axe_timer := None \<rparr>"

text \<open>
  Modelled from the spec: \<open>smartlist_remove\<close> (the container module is not among the
  sources) takes the connection out of the circuit's list of downstreams.
\<close>

definition smartlist_remove :: "nat list \<Rightarrow> nat \<Rightarrow> nat list" where
  "smartlist_remove sl element = filter (\<lambda>e. e \<noteq> element) sl"

text \<open>\<open>roundrobin_circuit_drop_downstream\<close>: remove the connection; when none is left,
  close the circuit if both FINs are through, and arm the axe timer otherwise.\<close>

definition roundrobin_circuit_drop_downstream ::
  "roundrobin_circuit_t \<Rightarrow> nat \<Rightarrow> roundrobin_circuit_t" where
  "roundrobin_circuit_drop_downstream ckt conn =
    (let ckt1 = ckt \<lparr> downstreams := smartlist_remove (downstreams ckt) conn \<rparr>
     in if length (downstreams ckt1) = 0 then
          (if sent_fin ckt1 \<and> received_fin ckt1 then ckt1 \<lparr> closed := True \<rparr>
           else ckt1 \<lparr> axe_timer := Some 100 \<rparr>)
        else ckt1)"

section \<open>The dispatcher\<close>

text \<open>The round-robin step: \<open>next_down++\<close>, and back to zero when the index equals the
  number of downstreams.\<close>

definition advance_next_down :: "roundrobin_circuit_t \<Rightarrow> 16 word" where
  "advance_next_down ckt =
    (let nd = next_down ckt + 1
     in if unat nd = length (downstreams ckt) then 0 else nd)"

text \<open>
  The loop of \<open>rr_send_blocks\<close>. \<open>rs\<close> holds the values \<open>random_range\<close> returns, one
  for each block sent; the result is \<open>None\<close> when the list is used up before the loop
  ends. \<open>final\<close> is the first branch of the loop (at end of stream, what is pending fits
  in one block): it shrinks \<open>next_block_size\<close> and sets FIN. Otherwise the loop is left
  when less than a block is pending. \<open>smartlist_get\<close> outside the list is a fault.
\<close>

fun rr_send_loop ::
  "evlib \<Rightarrow> 16 word list \<Rightarrow> bool \<Rightarrow> roundrobin_circuit_t \<Rightarrow> (nat \<Rightarrow> conn_t)
    \<Rightarrow> (roundrobin_circuit_t \<times> (nat \<Rightarrow> conn_t)) outcome option" where
  "rr_send_loop lib rs at_eof ckt0 conns =
    (let avail = length (xmit_pending ckt0);
         flags0 = (if sent_syn ckt0 then 0 else RR_F_SYN);
         final = (at_eof \<and> avail > 0 \<and> avail \<le> unat (next_block_size ckt0))
     in if avail < unat (next_block_size ckt0) \<and> \<not> final then Some (Return 0 (ckt0, conns))
        else
          let ckt = (if final then ckt0 \<lparr> next_block_size := of_nat avail \<rparr> else ckt0);
              flags = (if final then flags0 OR RR_F_FIN else flags0)
          in if length (downstreams ckt) \<le> unat (next_down ckt)
             then Some (Crash IndexOutOfRange)
             else
               let target = downstreams ckt ! unat (next_down ckt) in
               case rr_send_block lib (outbound (conns target)) (xmit_pending ckt) []
                      (circuit_id ckt) (send_offset ckt) (next_block_size ckt) flags of
                 Crash f \<Rightarrow> Some (Crash f)
               | Return r (dest, source, block) \<Rightarrow>
                   let conns1 = conns (target := (conns target) \<lparr> outbound := dest \<rparr>);
                       ckt1 = ckt \<lparr> xmit_pending := source \<rparr>
                   in if r \<noteq> 0 then Some (Return (- 1) (ckt1, conns1))
                      else (case rs of
                              [] \<Rightarrow> None
                            | r1 # rs1 \<Rightarrow>
                                rr_send_loop lib rs1 at_eof
                                  (ckt1 \<lparr> next_down := advance_next_down ckt1,
                                          send_offset := send_offset ckt1
                                            + ucast (next_block_size ckt1),
                                          next_block_size := r1,
                                          sent_syn := True \<rparr>) conns1))"

definition rr_send_blocks ::
  "evlib \<Rightarrow> 16 word list \<Rightarrow> bool \<Rightarrow> roundrobin_circuit_t \<Rightarrow> (nat \<Rightarrow> conn_t)
    \<Rightarrow> (roundrobin_circuit_t \<times> (nat \<Rightarrow> conn_t)) outcome option" where
  "rr_send_blocks lib rs at_eof ckt conns =
    (if \<not> new_ok lib then Some (Return (- 1) (ckt, conns))
     else rr_send_loop lib rs at_eof ckt conns)"

text \<open>\<open>roundrobin_circuit_send\<close>: move what arrived from upstream to the pending buffer,
  then send blocks.\<close>

definition roundrobin_circuit_send ::
  "evlib \<Rightarrow> 16 word list \<Rightarrow> roundrobin_circuit_t \<Rightarrow> (nat \<Rightarrow> conn_t)
    \<Rightarrow> (roundrobin_circuit_t \<times> (nat \<Rightarrow> conn_t)) outcome option" where
  "roundrobin_circuit_send lib rs ckt conns =
    (if \<not> add_ok lib then Some (Return (- 1) (ckt, conns))
     else rr_send_blocks lib rs False
            (ckt \<lparr> xmit_pending := xmit_pending ckt @ up_input ckt, up_input := [] \<rparr>) conns)"

text \<open>The end of \<open>roundrobin_circuit_send_eof\<close>: mark the FIN as sent and call
  \<open>conn_send_eof\<close> on every downstream.\<close>

definition send_eof_finish ::
  "roundrobin_circuit_t \<Rightarrow> (nat \<Rightarrow> conn_t) \<Rightarrow> roundrobin_circuit_t \<times> (nat \<Rightarrow> conn_t)" where
  "send_eof_finish ckt conns =
    (ckt \<lparr> sent_fin := True \<rparr>,
     fold (\<lambda>conn cs. cs (conn := (cs conn) \<lparr> eof_sent := True \<rparr>)) (downstreams ckt) conns)"

text \<open>
  \<open>roundrobin_circuit_send_eof\<close>. \<open>rb\<close> is the stream of bytes \<open>random_bytes\<close>
  delivers. With nothing pending, one chaff block of \<open>next_block_size\<close> random bytes is
  sent with the flags \<open>RR_F_FIN|RR_F_CHAFF\<close>.
\<close>

definition roundrobin_circuit_send_eof ::
  "evlib \<Rightarrow> 16 word list \<Rightarrow> (nat \<Rightarrow> byte) \<Rightarrow> roundrobin_circuit_t \<Rightarrow> (nat \<Rightarrow> conn_t)
    \<Rightarrow> (roundrobin_circuit_t \<times> (nat \<Rightarrow> conn_t)) outcome option" where
  "roundrobin_circuit_send_eof lib rs rb ckt0 conns =
    (if length (downstreams ckt0) = 0 then Some (Return 0 (ckt0 \<lparr> sent_fin := True \<rparr>, conns))
     else if length (up_input ckt0) \<noteq> 0 \<and> \<not> add_ok lib then Some (Return (- 1) (ckt0, conns))
     else
       let ckt = ckt0 \<lparr> xmit_pending := xmit_pending ckt0 @ up_input ckt0, up_input := [] \<rparr>
       in if length (xmit_pending ckt) > 0 then
            (case rr_send_blocks lib rs True ckt conns of
               None \<Rightarrow> None
             | Some (Crash f) \<Rightarrow> Some (Crash f)
             | Some (Return r (ckt1, conns1)) \<Rightarrow>
                 if r \<noteq> 0 then Some (Return (- 1) (ckt1, conns1))
                 else Some (Return 0 (send_eof_finish ckt1 conns1)))
          else if \<not> new_ok lib then Some (Return (- 1) (ckt, conns))
          else
            (case reserve_space lib (unat (next_block_size ckt)) of
               None \<Rightarrow> Some (Return (- 1) (ckt, conns))
             | Some iov_len \<Rightarrow>
                 if iov_len < unat (next_block_size ckt) then Some (Return (- 1) (ckt, conns))
                 else if \<not> random_ok lib then Some (Return (- 1) (ckt, conns))
                 else if \<not> commit_ok lib then Some (Return (- 1) (ckt, conns))
                 else if length (downstreams ckt) \<le> unat (next_down ckt)
                 then Some (Crash IndexOutOfRange)
                 else
                   let chaff = map rb [0 ..< unat (next_block_size ckt)];
                       d = downstreams ckt ! unat (next_down ckt)
                   in (case rr_send_block lib (outbound (conns d)) chaff []
                              (circuit_id ckt) (send_offset ckt) (next_block_size ckt)
                              (RR_F_FIN OR RR_F_CHAFF) of
                         Crash f \<Rightarrow> Some (Crash f)
                       | Return r (dest, source, block) \<Rightarrow>
                           let conns1 = conns (d := (conns d) \<lparr> outbound := dest \<rparr>)
                           in if r \<noteq> 0 then Some (Return (- 1) (ckt, conns1))
                              else (case rs of
                                      [] \<Rightarrow> None
                                    | r1 # rs1 \<Rightarrow>
                                        Some (Return 0
                                          (send_eof_finish
                                            (ckt \<lparr> next_down := advance_next_down ckt,
                                                   send_offset := send_offset ckt
                                                     + ucast (next_block_size ckt),
                                                   next_block_size := r1 \<rparr>) conns1))))))"

section \<open>Receive subroutines\<close>

definition elt_end :: "rr_reassembly_elt \<Rightarrow> 32 word" where
  "elt_end p = e_offset p + ucast (e_length p)"

definition hdr_end :: "rr_header \<Rightarrow> 32 word" where
  "hdr_end hdr = h_offset hdr + ucast (h_length hdr)"

text \<open>The loop after \<open>grow_back\<close>: while the successor of \<open>p\<close> is a real element that
  starts where \<open>p\<close> ends, absorb it. The result is \<open>p\<close> and what follows it.\<close>

fun merge_successors :: "rr_reassembly_elt \<Rightarrow> rr_reassembly_elt list \<Rightarrow> rr_reassembly_elt list"
  where
  "merge_successors p [] = [p]"
| "merge_successors p (q # qs) =
    (if elt_end p = e_offset q then
       merge_successors
         (p \<lparr> e_data := e_data p @ e_data q, e_length := e_length p + e_length q,
              e_flags := e_flags p OR e_flags q \<rparr>) qs
     else p # q # qs)"

text \<open>The loop after \<open>grow_front\<close>: while the predecessor of \<open>p\<close> is a real element that
  ends where \<open>p\<close> starts, absorb it. The predecessors are given nearest first, and so is
  the result, which starts with \<open>p\<close>.\<close>

fun merge_predecessors ::
  "rr_reassembly_elt \<Rightarrow> rr_reassembly_elt list \<Rightarrow> rr_reassembly_elt list" where
  "merge_predecessors p [] = [p]"
| "merge_predecessors p (q # qs) =
    (if e_offset p = elt_end q then
       merge_predecessors
         (p \<lparr> e_data := e_data q @ e_data p, e_length := e_length p + e_length q,
              e_offset := e_offset p - ucast (e_length q),
              e_flags := e_flags p OR e_flags q \<rparr>) qs
     else p # q # qs)"

text \<open>
  The walk over the queue. \<open>passed\<close> holds the elements already passed, nearest first
  (its head is \<open>p->prev\<close>; it is empty when \<open>p->prev\<close> is the sentinel), the last
  argument the elements from \<open>p\<close> on. The result is the status and the new queue.
\<close>

fun rr_place ::
  "evlib \<Rightarrow> evbuffer \<Rightarrow> rr_header \<Rightarrow> rr_reassembly_elt list \<Rightarrow> rr_reassembly_elt list
    \<Rightarrow> int \<times> rr_reassembly_elt list" where
  "rr_place lib block hdr passed [] =
    (let q = \<lparr> e_data = block, e_offset = h_offset hdr, e_length = h_length hdr,
               e_flags = h_flags hdr \<rparr>
     in case passed of
          [] \<Rightarrow> (0, [q])
        | pv # _ \<Rightarrow>
            if \<not> mod32_lt (elt_end pv) (h_offset hdr) then (- 1, rev passed)
            else (0, rev passed @ [q]))"
| "rr_place lib block hdr passed (p # ps) =
    (if hdr_end hdr = e_offset p then
       (if \<not> prepend_ok lib then (- 1, rev passed @ p # ps)
        else (0, rev (merge_predecessors
                (p \<lparr> e_data := block @ e_data p, e_length := e_length p + h_length hdr,
                     e_offset := e_offset p - ucast (h_length hdr),
                     e_flags := e_flags p OR h_flags hdr \<rparr>) passed) @ ps))
     else if h_offset hdr = elt_end p then
       (if \<not> add_ok lib then (- 1, rev passed @ p # ps)
        else (0, rev passed @ merge_successors
                (p \<lparr> e_data := e_data p @ block, e_length := e_length p + h_length hdr,
                     e_flags := e_flags p OR h_flags hdr \<rparr>) ps))
     else if mod32_lt (hdr_end hdr) (e_offset p) then
       (let q = \<lparr> e_data = block, e_offset = h_offset hdr, e_length = h_length hdr,
                  e_flags = h_flags hdr \<rparr>
        in case passed of
             [] \<Rightarrow> (0, q # p # ps)
           | pv # _ \<Rightarrow>
               if mod32_lt (elt_end pv) (h_offset hdr) then (0, rev passed @ q # p # ps)
               else (- 1, rev passed @ p # ps))
     else rr_place lib block hdr (p # passed) ps)"

text \<open>A flag test such as \<open>hdr->flags & RR_F_SYN\<close>: true when a masked bit is set.\<close>

definition has_flag :: "16 word \<Rightarrow> 16 word \<Rightarrow> bool" where
  "has_flag fl m = (fl AND m \<noteq> 0)"

text \<open>The three admission checks on SYN, FIN and plain blocks that precede the walk.\<close>

definition syn_rejected :: "rr_header \<Rightarrow> rr_reassembly_elt list \<Rightarrow> bool" where
  "syn_rejected hdr queue =
    (has_flag (h_flags hdr) RR_F_SYN \<and>
     (h_offset hdr > 0 \<or>
      (queue \<noteq> [] \<and>
       (has_flag (e_flags (hd queue)) RR_F_SYN \<or>
        \<not> mod32_le (hdr_end hdr) (e_offset (hd queue))))))"

definition fin_rejected :: "rr_header \<Rightarrow> rr_reassembly_elt list \<Rightarrow> bool" where
  "fin_rejected hdr queue =
    (has_flag (h_flags hdr) RR_F_FIN \<and> queue \<noteq> [] \<and>
     (has_flag (e_flags (last queue)) RR_F_FIN \<or>
      \<not> mod32_le (elt_end (last queue)) (h_offset hdr)))"

definition plain_rejected :: "rr_header \<Rightarrow> rr_reassembly_elt list \<Rightarrow> bool" where
  "plain_rejected hdr queue =
    (\<not> has_flag (h_flags hdr) (RR_F_SYN OR RR_F_FIN) \<and> queue \<noteq> [] \<and>
     ((has_flag (e_flags (hd queue)) RR_F_SYN \<and>
       \<not> mod32_le (elt_end (hd queue)) (h_offset hdr)) \<or>
      (has_flag (e_flags (last queue)) RR_F_FIN \<and>
       \<not> mod32_le (hdr_end hdr) (e_offset (last queue)))))"

text \<open>
  \<open>rr_reassemble_block\<close>: chaff without SYN or FIN is dropped; chaff with one of them
  is queued with length zero and no data. Then the admission checks, then the walk.
\<close>

definition rr_reassemble_block ::
  "evlib \<Rightarrow> evbuffer \<Rightarrow> rr_header \<Rightarrow> roundrobin_circuit_t \<Rightarrow> int \<times> roundrobin_circuit_t" where
  "rr_reassemble_block lib block0 hdr0 ckt =
    (if has_flag (h_flags hdr0) RR_F_CHAFF \<and> \<not> has_flag (h_flags hdr0) (RR_F_SYN OR RR_F_FIN)
     then (0, ckt)
     else
       let chaff = has_flag (h_flags hdr0) RR_F_CHAFF;
           hdr = (if chaff then hdr0 \<lparr> h_length := 0 \<rparr> else hdr0);
           block = (if chaff then [] else block0);
           queue = reassembly_queue ckt
       in if syn_rejected hdr queue then (- 1, ckt)
          else if fin_rejected hdr queue then (- 1, ckt)
          else if plain_rejected hdr queue then (- 1, ckt)
          else case rr_place lib block hdr [] queue of
                 (r, queue') \<Rightarrow> (r, ckt \<lparr> reassembly_queue := queue' \<rparr>))"

text \<open>
  \<open>rr_push_to_upstream\<close>: only the first element of the queue is looked at. The two
  assertions on a FIN and the assertion on the element that follows are the source's.
\<close>

definition rr_push_to_upstream :: "evlib \<Rightarrow> roundrobin_circuit_t \<Rightarrow> roundrobin_circuit_t outcome"
  where
  "rr_push_to_upstream lib ckt =
    (case reassembly_queue ckt of
       [] \<Rightarrow> Return 0 ckt
     | ready # rest \<Rightarrow>
         if recv_offset ckt \<noteq> e_offset ready then Return 0 ckt
         else if \<not> received_syn ckt \<and> \<not> has_flag (e_flags ready) RR_F_SYN then Return 0 ckt
         else
           let ckt1 = ckt \<lparr> received_syn := True \<rparr> in
           if \<not> add_ok lib then Return (- 1) ckt1
           else
             let ckt2 = ckt1 \<lparr> up_output := up_output ckt1 @ e_data ready,
                               recv_offset := recv_offset ckt1 + ucast (e_length ready) \<rparr>;
                 fin = has_flag (e_flags ready) RR_F_FIN
             in if fin \<and> received_fin ckt2 then Crash AssertFailed
                else if fin \<and> rest \<noteq> [] then Crash AssertFailed
                else
                  let ckt3 = (if fin then ckt2 \<lparr> received_fin := True, up_eof := True \<rparr>
                              else ckt2)
                  in if rest \<noteq> [] \<and> e_offset (hd rest) = recv_offset ckt3
                     then Crash AssertFailed
                     else Return 0 (ckt3 \<lparr> reassembly_queue := rest \<rparr>))"

section \<open>Circuit table and the receive path\<close>

text \<open>
  The state the receive path works on: the circuit table of the configuration (circuit
  id to circuit), the circuits and the connections, both by handle.
\<close>

record world =
  table :: "64 word \<Rightarrow> nat option"
  heap :: "nat \<Rightarrow> roundrobin_circuit_t"
  conns :: "nat \<Rightarrow> conn_t"

text \<open>
  Modelled from the spec: \<open>circuit_add_downstream\<close> of the generic connection module
  (not among the sources) attaches the connection: it binds the connection to the
  circuit and lets the protocol add it to the circuit's downstreams.
\<close>

definition circuit_add_downstream :: "world \<Rightarrow> nat \<Rightarrow> nat \<Rightarrow> world" where
  "circuit_add_downstream w c conn =
    w \<lparr> heap := (heap w) (c := roundrobin_circuit_add_downstream (heap w c) conn),
        conns := (conns w) (conn := (conns w conn) \<lparr> conn_circuit := Some c \<rparr>) \<rparr>"

text \<open>
  \<open>rr_find_or_make_circuit\<close>. \<open>new\<close> is the handle of the circuit that
  \<open>circuit_create\<close> allocates; \<open>create_ok\<close> and \<open>open_ok\<close> tell whether
  \<open>circuit_create\<close> and \<open>circuit_open_upstream\<close> succeed. The circuit id is stored in
  the table entry; the circuit itself is the one \<open>roundrobin_circuit_create\<close> builds.
\<close>

definition rr_find_or_make_circuit ::
  "evlib \<Rightarrow> nat \<Rightarrow> world \<Rightarrow> nat \<Rightarrow> 64 word \<Rightarrow> world outcome" where
  "rr_find_or_make_circuit lib new w conn cid =
    (case table w cid of
       Some c \<Rightarrow> Return 0 (circuit_add_downstream w c conn)
     | None \<Rightarrow>
         if \<not> create_ok lib then Return (- 1) w
         else if \<not> open_ok lib then Return (- 1) w
         else Return 0
                (circuit_add_downstream
                  (w \<lparr> heap := (heap w) (new := roundrobin_circuit_create),
                       table := (table w) (cid := Some new) \<rparr>) new conn))"

text \<open>
  \<open>evbuffer_remove_buffer src dst datlen\<close> of the buffer library moves up to \<open>datlen\<close>
  bytes from the front of \<open>src\<close> to the end of \<open>dst\<close>. Its result is the number of bytes
  it has moved, not a status: \<open>0\<close> for a request of no bytes, and \<open>-1\<close>, with nothing
  moved, when the library refuses (\<open>remove_ok\<close> false). The model returns the result with
  the two buffers \<open>(src, dst)\<close>.
\<close>

definition evbuffer_remove_buffer ::
  "evlib \<Rightarrow> evbuffer \<Rightarrow> evbuffer \<Rightarrow> nat \<Rightarrow> int \<times> evbuffer \<times> evbuffer" where
  "evbuffer_remove_buffer lib src dst datlen =
    (if datlen = 0 then (0, src, dst)
     else if \<not> remove_ok lib then (- 1, src, dst)
     else (int (length (take datlen src)), drop datlen src, dst @ take datlen src))"

text \<open>
  The loop of \<open>roundrobin_conn_recv\<close> on the inbound buffer and the circuit: the status
  is \<open>0\<close> when the loop is left by \<open>break\<close> and \<open>-1\<close> when the function returns from
  inside it. The source returns \<open>-1\<close> whenever the result of \<open>evbuffer_remove_buffer\<close> is
  not zero, that is, for every block with payload, after the payload has been taken off
  the inbound buffer.
\<close>

function rr_recv_loop ::
  "evlib \<Rightarrow> evbuffer \<Rightarrow> roundrobin_circuit_t \<Rightarrow> int \<times> evbuffer \<times> roundrobin_circuit_t" where
  "rr_recv_loop lib input ckt =
    (let avail = length input in
     if avail < RR_MIN_BLOCK then (0, input, ckt)
     else case rr_peek_header input of
            None \<Rightarrow> (- 1, input, ckt)
          | Some hdr \<Rightarrow>
              if avail < RR_MIN_BLOCK + unat (h_length hdr) then (0, input, ckt)
              else if circuit_id ckt \<noteq> h_ckt_id hdr then (- 1, input, ckt)
              else if \<not> new_ok lib then (- 1, input, ckt)
              else if \<not> drain_ok lib then (- 1, input, ckt)
              else
                (case evbuffer_remove_buffer lib (drop RR_WIRE_HDR_LEN input) []
                        (unat (h_length hdr)) of
                   (moved, input2, block) \<Rightarrow>
                     if moved \<noteq> 0 then (- 1, input2, ckt)
                     else (case rr_reassemble_block lib block hdr ckt of
                             (r, ckt1) \<Rightarrow>
                               if r \<noteq> 0 then (- 1, input2, ckt1)
                               else rr_recv_loop lib input2 ckt1)))"
  by pat_completeness auto
termination
  by (relation "measure (\<lambda>(lib, input, ckt). length input)")
     (auto simp add: RR_MIN_BLOCK_def RR_WIRE_HDR_LEN_def evbuffer_remove_buffer_def
        split: if_splits)

text \<open>The part of \<open>roundrobin_conn_recv\<close> after the connection has a circuit: the loop,
  then \<open>rr_push_to_upstream\<close>.\<close>

definition recv_on_circuit :: "evlib \<Rightarrow> world \<Rightarrow> nat \<Rightarrow> nat \<Rightarrow> world outcome" where
  "recv_on_circuit lib w conn c =
    (case rr_recv_loop lib (inbound (conns w conn)) (heap w c) of
       (r, input1, ckt1) \<Rightarrow>
         let w1 = w \<lparr> conns := (conns w) (conn := (conns w conn) \<lparr> inbound := input1 \<rparr>),
                      heap := (heap w) (c := ckt1) \<rparr>
         in if r \<noteq> 0 then Return (- 1) w1
            else (case rr_push_to_upstream lib ckt1 of
                    Crash f \<Rightarrow> Crash f
                  | Return r2 ckt2 \<Rightarrow>
                      Return (if r2 \<noteq> 0 then - 1 else 0)
                        (w1 \<lparr> heap := (heap w1) (c := ckt2) \<rparr>)))"

text \<open>\<open>roundrobin_conn_recv\<close>: a connection without a circuit waits for a minimal block,
  reads the circuit id from the header and finds or makes its circuit first.\<close>

definition roundrobin_conn_recv :: "evlib \<Rightarrow> nat \<Rightarrow> world \<Rightarrow> nat \<Rightarrow> world outcome" where
  "roundrobin_conn_recv lib new w conn =
    (case conn_circuit (conns w conn) of
       Some c \<Rightarrow> recv_on_circuit lib w conn c
     | None \<Rightarrow>
         if length (inbound (conns w conn)) < RR_MIN_BLOCK then Return 0 w
         else (case rr_peek_header (inbound (conns w conn)) of
                 None \<Rightarrow> Return (- 1) w
               | Some hdr \<Rightarrow>
                   (case rr_find_or_make_circuit lib new w conn (h_ckt_id hdr) of
                      Crash f \<Rightarrow> Crash f
                    | Return r w1 \<Rightarrow>
                        if r \<noteq> 0 then Return (- 1) w1
                        else (case conn_circuit (conns w1 conn) of
                                None \<Rightarrow> Crash AssertFailed
                              | Some c \<Rightarrow> recv_on_circuit lib w1 conn c))))"

section \<open>Traffic used in the theorems\<close>

text \<open>A connection that is attached to nothing and has empty buffers.\<close>

definition idle_conn :: conn_t where
  "idle_conn = \<lparr> conn_circuit = None, inbound = [], outbound = [], eof_sent = False \<rparr>"

text \<open>A server with an empty circuit table on which \<open>input\<close> has arrived on connection
  \<open>0\<close>, which is not attached yet.\<close>

definition arrival :: "evbuffer \<Rightarrow> world" where
  "arrival input =
    \<lparr> table = (\<lambda>_. None), heap = (\<lambda>_. roundrobin_circuit_create),
      conns = (\<lambda>_. idle_conn) (0 := idle_conn \<lparr> inbound := input \<rparr>) \<rparr>"

text \<open>The first block of a stream for circuit \<open>k\<close> with flags \<open>fl\<close> and no payload,
  followed by sixteen more bytes (the receive loop looks at a block once
  \<open>RR_MIN_BLOCK\<close> plus its length is buffered).\<close>

definition first_block :: "64 word \<Rightarrow> 16 word \<Rightarrow> evbuffer" where
  "first_block k fl =
    rr_write_header \<lparr> h_ckt_id = k, h_offset = 0, h_length = 0, h_flags = fl \<rparr>
      @ replicate 16 0"

text \<open>A circuit as \<open>roundrobin_circuit_create\<close> makes it, with connection \<open>0\<close>, and with
  connections \<open>0\<close> and \<open>1\<close>, attached as downstreams.\<close>

definition one_downstream :: roundrobin_circuit_t where
  "one_downstream = roundrobin_circuit_add_downstream roundrobin_circuit_create 0"

definition two_downstreams :: roundrobin_circuit_t where
  "two_downstreams = roundrobin_circuit_add_downstream one_downstream 1"





text \<open>More bytes arriving on a connection.\<close>

definition more_input :: "world \<Rightarrow> nat \<Rightarrow> evbuffer \<Rightarrow> world" where
  "more_input w conn input =
    w \<lparr> conns := (conns w) (conn := (conns w conn)
          \<lparr> inbound := inbound (conns w conn) @ input \<rparr>) \<rparr>"

text \<open>A circuit whose stream has ended (SYN and FIN received, nothing delivered but the
  two flags) and on which a second FIN has been queued.\<close>

definition fin_after_fin :: roundrobin_circuit_t where
  "fin_after_fin = roundrobin_circuit_create
     \<lparr> reassembly_queue :=
         [\<lparr> e_data = [], e_offset = 0, e_length = 0, e_flags = RR_F_FIN \<rparr>],
       received_syn := True, received_fin := True \<rparr>"

text \<open>Two circuits with one queued element: a block with SYN and FIN at offset \<open>0\<close>, and
  a block at offset \<open>5\<close> that is ahead of the stream.\<close>

definition syn_fin_queued :: roundrobin_circuit_t where
  "syn_fin_queued = roundrobin_circuit_create
     \<lparr> reassembly_queue := [\<lparr> e_data = [1, 2], e_offset = 0, e_length = 2,
          e_flags = RR_F_SYN OR RR_F_FIN \<rparr>] \<rparr>"

definition early_block_queued :: roundrobin_circuit_t where
  "early_block_queued = roundrobin_circuit_create
     \<lparr> reassembly_queue := [\<lparr> e_data = [1, 2], e_offset = 5, e_length = 2, e_flags = 0 \<rparr>] \<rparr>"

section \<open>Properties of the header codec\<close>

lemma byte_masks64:
  "(0xFF00000000000000 :: 64 word) = push_bit 56 (mask 8)"
  "(0x00FF000000000000 :: 64 word) = push_bit 48 (mask 8)"
  "(0x0000FF0000000000 :: 64 word) = push_bit 40 (mask 8)"
  "(0x000000FF00000000 :: 64 word) = push_bit 32 (mask 8)"
  "(0x00000000FF000000 :: 64 word) = push_bit 24 (mask 8)"
  "(0x0000000000FF0000 :: 64 word) = push_bit 16 (mask 8)"
  "(0x000000000000FF00 :: 64 word) = push_bit 8 (mask 8)"
  "(0x00000000000000FF :: 64 word) = push_bit 0 (mask 8)"
  by (simp_all add: mask_eq_exp_minus_1 push_bit_eq_mult)

lemma byte_masks32:
  "(0xFF000000 :: 32 word) = push_bit 24 (mask 8)"
  "(0x00FF0000 :: 32 word) = push_bit 16 (mask 8)"
  "(0x0000FF00 :: 32 word) = push_bit 8 (mask 8)"
  "(0x000000FF :: 32 word) = push_bit 0 (mask 8)"
  by (simp_all add: mask_eq_exp_minus_1 push_bit_eq_mult)

lemma byte_masks16:
  "(0xFF00 :: 16 word) = push_bit 8 (mask 8)"
  "(0x00FF :: 16 word) = push_bit 0 (mask 8)"
  by (simp_all add: mask_eq_exp_minus_1 push_bit_eq_mult)

text \<open>Writing a byte and reading it back selects eight bits of the field.\<close>

lemma byte_of_field:
  fixes x :: "'a::len word"
  shows "push_bit k (ucast (ucast (drop_bit k (x AND push_bit k (mask 8))) :: 8 word))
    = (push_bit k (take_bit 8 (drop_bit k x)) :: 'a word)"
  by (rule bit_eqI) (auto simp add: bit_simps)

text \<open>The byte at position \<open>k\<close> and the bits below it do not overlap, so adding them
  extends the low part by eight bits.\<close>

lemma byte_extends_low_part:
  fixes x :: "'a::len word"
  shows "push_bit k (take_bit 8 (drop_bit k x)) + take_bit k x = take_bit (k + 8) x"
proof -
  let ?hi = "push_bit k (take_bit 8 (drop_bit k x))"
  have "?hi AND take_bit k x = 0"
    by (rule bit_eqI) (auto simp add: bit_simps)
  then have "?hi + take_bit k x = ?hi OR take_bit k x"
    by (rule disjunctive_add_eq_or)
  also have "\<dots> = take_bit (k + 8) x"
    by (rule bit_eqI) (auto simp add: bit_simps)
  finally show ?thesis .
qed

lemma low_byte:
  fixes x :: "'a::len word"
  shows "push_bit 0 (take_bit 8 (drop_bit 0 x)) = take_bit 8 x"
  by simp

lemma join64:
  fixes x :: "64 word"
  shows "push_bit 56 (ucast (ucast (drop_bit 56 (x AND 0xFF00000000000000)) :: 8 word)) +
   push_bit 48 (ucast (ucast (drop_bit 48 (x AND 0x00FF000000000000)) :: 8 word)) +
   push_bit 40 (ucast (ucast (drop_bit 40 (x AND 0x0000FF0000000000)) :: 8 word)) +
   push_bit 32 (ucast (ucast (drop_bit 32 (x AND 0x000000FF00000000)) :: 8 word)) +
   push_bit 24 (ucast (ucast (drop_bit 24 (x AND 0x00000000FF000000)) :: 8 word)) +
   push_bit 16 (ucast (ucast (drop_bit 16 (x AND 0x0000000000FF0000)) :: 8 word)) +
   push_bit 8 (ucast (ucast (drop_bit 8 (x AND 0x000000000000FF00)) :: 8 word)) +
   push_bit 0 (ucast (ucast (drop_bit 0 (x AND 0x00000000000000FF)) :: 8 word)) = x"
proof -
  have t8: "push_bit 8 (take_bit 8 (drop_bit 8 x)) + take_bit 8 x = take_bit 16 x"
    using byte_extends_low_part [of 8 x] by simp
  have t16: "push_bit 16 (take_bit 8 (drop_bit 16 x)) + take_bit 16 x = take_bit 24 x"
    using byte_extends_low_part [of 16 x] by simp
  have t24: "push_bit 24 (take_bit 8 (drop_bit 24 x)) + take_bit 24 x = take_bit 32 x"
    using byte_extends_low_part [of 24 x] by simp
  have t32: "push_bit 32 (take_bit 8 (drop_bit 32 x)) + take_bit 32 x = take_bit 40 x"
    using byte_extends_low_part [of 32 x] by simp
  have t40: "push_bit 40 (take_bit 8 (drop_bit 40 x)) + take_bit 40 x = take_bit 48 x"
    using byte_extends_low_part [of 40 x] by simp
  have t48: "push_bit 48 (take_bit 8 (drop_bit 48 x)) + take_bit 48 x = take_bit 56 x"
    using byte_extends_low_part [of 48 x] by simp
  have t56: "push_bit 56 (take_bit 8 (drop_bit 56 x)) + take_bit 56 x = x"
    using byte_extends_low_part [of 56 x] by (simp add: take_bit_word_eq_self)
  show ?thesis
    unfolding byte_masks64 byte_of_field add.assoc low_byte t8 t16 t24 t32 t40 t48 t56 ..
qed

lemma join32:
  fixes x :: "32 word"
  shows "push_bit 24 (ucast (ucast (drop_bit 24 (x AND 0xFF000000)) :: 8 word)) +
   push_bit 16 (ucast (ucast (drop_bit 16 (x AND 0x00FF0000)) :: 8 word)) +
   push_bit 8 (ucast (ucast (drop_bit 8 (x AND 0x0000FF00)) :: 8 word)) +
   push_bit 0 (ucast (ucast (drop_bit 0 (x AND 0x000000FF)) :: 8 word)) = x"
proof -
  have t8: "push_bit 8 (take_bit 8 (drop_bit 8 x)) + take_bit 8 x = take_bit 16 x"
    using byte_extends_low_part [of 8 x] by simp
  have t16: "push_bit 16 (take_bit 8 (drop_bit 16 x)) + take_bit 16 x = take_bit 24 x"
    using byte_extends_low_part [of 16 x] by simp
  have t24: "push_bit 24 (take_bit 8 (drop_bit 24 x)) + take_bit 24 x = x"
    using byte_extends_low_part [of 24 x] by (simp add: take_bit_word_eq_self)
  show ?thesis
    unfolding byte_masks32 byte_of_field add.assoc low_byte t8 t16 t24 ..
qed

lemma join16:
  fixes x :: "16 word"
  shows "push_bit 8 (ucast (ucast (drop_bit 8 (x AND 0xFF00)) :: 8 word)) +
   push_bit 0 (ucast (ucast (drop_bit 0 (x AND 0x00FF)) :: 8 word)) = x"
proof -
  have t8: "push_bit 8 (take_bit 8 (drop_bit 8 x)) + take_bit 8 x = x"
    using byte_extends_low_part [of 8 x] by (simp add: take_bit_word_eq_self)
  show ?thesis
    unfolding byte_masks16 byte_of_field low_byte t8 ..
qed

lemma nth_of_sixteen:
  "[b0, b1, b2, b3, b4, b5, b6, b7, b8, b9, b10, b11, b12, b13, b14, b15] ! 0 = b0"
  "[b0, b1, b2, b3, b4, b5, b6, b7, b8, b9, b10, b11, b12, b13, b14, b15] ! 1 = b1"
  "[b0, b1, b2, b3, b4, b5, b6, b7, b8, b9, b10, b11, b12, b13, b14, b15] ! 2 = b2"
  "[b0, b1, b2, b3, b4, b5, b6, b7, b8, b9, b10, b11, b12, b13, b14, b15] ! 3 = b3"
  "[b0, b1, b2, b3, b4, b5, b6, b7, b8, b9, b10, b11, b12, b13, b14, b15] ! 4 = b4"
  "[b0, b1, b2, b3, b4, b5, b6, b7, b8, b9, b10, b11, b12, b13, b14, b15] ! 5 = b5"
  "[b0, b1, b2, b3, b4, b5, b6, b7, b8, b9, b10, b11, b12, b13, b14, b15] ! 6 = b6"
  "[b0, b1, b2, b3, b4, b5, b6, b7, b8, b9, b10, b11, b12, b13, b14, b15] ! 7 = b7"
  "[b0, b1, b2, b3, b4, b5, b6, b7, b8, b9, b10, b11, b12, b13, b14, b15] ! 8 = b8"
  "[b0, b1, b2, b3, b4, b5, b6, b7, b8, b9, b10, b11, b12, b13, b14, b15] ! 9 = b9"
  "[b0, b1, b2, b3, b4, b5, b6, b7, b8, b9, b10, b11, b12, b13, b14, b15] ! 10 = b10"
  "[b0, b1, b2, b3, b4, b5, b6, b7, b8, b9, b10, b11, b12, b13, b14, b15] ! 11 = b11"
  "[b0, b1, b2, b3, b4, b5, b6, b7, b8, b9, b10, b11, b12, b13, b14, b15] ! 12 = b12"
  "[b0, b1, b2, b3, b4, b5, b6, b7, b8, b9, b10, b11, b12, b13, b14, b15] ! 13 = b13"
  "[b0, b1, b2, b3, b4, b5, b6, b7, b8, b9, b10, b11, b12, b13, b14, b15] ! 14 = b14"
  "[b0, b1, b2, b3, b4, b5, b6, b7, b8, b9, b10, b11, b12, b13, b14, b15] ! 15 = b15"
  by simp_all

lemma length_rr_write_header: "length (rr_write_header h) = RR_WIRE_HDR_LEN"
  by (simp add: rr_write_header_def RR_WIRE_HDR_LEN_def)

text \<open>Parsing a buffer that starts with a written header gives the header back,
  whatever follows it and whatever the values of its fields.\<close>

lemma peek_written_header: "rr_peek_header (rr_write_header h @ rest) = Some h"
proof -
  have "take RR_WIRE_HDR_LEN (rr_write_header h @ rest) = rr_write_header h"
    by (simp add: length_rr_write_header)
  moreover have "\<not> length (rr_write_header h @ rest) < RR_WIRE_HDR_LEN"
    by (simp add: length_rr_write_header)
  ultimately have "rr_peek_header (rr_write_header h @ rest) =
    Some \<lparr> h_ckt_id = push_bit 56 (ucast (rr_write_header h ! 0)) +
                         push_bit 48 (ucast (rr_write_header h ! 1)) +
                         push_bit 40 (ucast (rr_write_header h ! 2)) +
                         push_bit 32 (ucast (rr_write_header h ! 3)) +
                         push_bit 24 (ucast (rr_write_header h ! 4)) +
                         push_bit 16 (ucast (rr_write_header h ! 5)) +
                         push_bit 8 (ucast (rr_write_header h ! 6)) +
                         push_bit 0 (ucast (rr_write_header h ! 7)),
              h_offset = push_bit 24 (ucast (rr_write_header h ! 8)) +
                         push_bit 16 (ucast (rr_write_header h ! 9)) +
                         push_bit 8 (ucast (rr_write_header h ! 10)) +
                         push_bit 0 (ucast (rr_write_header h ! 11)),
              h_length = push_bit 8 (ucast (rr_write_header h ! 12)) +
                         push_bit 0 (ucast (rr_write_header h ! 13)),
              h_flags = push_bit 8 (ucast (rr_write_header h ! 14)) +
                        push_bit 0 (ucast (rr_write_header h ! 15)) \<rparr>"
    by (simp only: rr_peek_header_def Let_def if_False)
  also have "\<dots> = Some \<lparr> h_ckt_id = h_ckt_id h, h_offset = h_offset h,
      h_length = h_length h, h_flags = h_flags h \<rparr>"
    unfolding rr_write_header_def nth_of_sixteen join64 join32 join16
    by simp
  finally show ?thesis by simp
qed

text \<open>The layout on the wire at a concrete header: big-endian, fixed width.\<close>

lemma rr_write_header_layout:
  "rr_write_header \<lparr> h_ckt_id = 0x0102030405060708, h_offset = 0x0A0B0C0D,
      h_length = 0x1112, h_flags = 0x2122 \<rparr>
   = [0x01, 0x02, 0x03, 0x04, 0x05, 0x06, 0x07, 0x08,
      0x0A, 0x0B, 0x0C, 0x0D, 0x11, 0x12, 0x21, 0x22]"
  by (simp add: rr_write_header_def)

text \<open>
  Claim C8 (header codec round trip): for every header \<open>h\<close> (64-bit circuit id,
  32-bit offset, 16-bit length, 16-bit flags), \<open>rr_write_header\<close> fills a buffer of
  sixteen bytes, and \<open>rr_peek_header\<close> on that buffer succeeds and returns exactly
  \<open>h\<close>.
\<close>

theorem rr_header_round_trip:
  "length (rr_write_header h) = 16 \<and> rr_peek_header (rr_write_header h) = Some h"
  using peek_written_header [of h "[]"]
  by (simp add: length_rr_write_header [unfolded RR_WIRE_HDR_LEN_def])

section \<open>Properties of the sequence arithmetic\<close>

text \<open>
  Claim C9 (sequence comparison semantics): for all 32-bit unsigned \<open>s\<close> and \<open>t\<close>,
  \<open>mod32_lt s t\<close> is true iff \<open>(t - s) mod 2^32\<close> lies strictly between \<open>0\<close> and
  \<open>2^31\<close>, and \<open>mod32_le s t\<close> is true iff \<open>(t - s) mod 2^32\<close> is strictly less than
  \<open>2^31\<close>.
\<close>

theorem mod32_comparison_semantics:
  "mod32_lt s t = (0 < (uint t - uint s) mod 2 ^ 32 \<and> (uint t - uint s) mod 2 ^ 32 < 2 ^ 31)
   \<and> mod32_le s t = ((uint t - uint s) mod 2 ^ 32 < 2 ^ 31)"
  by (simp add: mod32_lt_def mod32_le_def Let_def word_less_alt uint_word_ariths)

section \<open>Properties of the transmit subroutines\<close>

text \<open>\<open>rr_send_block\<close> returns \<open>0\<close> or \<open>-1\<close>, and it returns unless one of its two
  assertions fails or the final drain of the source is refused.\<close>

lemma rr_send_block_status:
  "rr_send_block lib dest source block cid off len fl = Return r st \<Longrightarrow> r = 0 \<or> r = - 1"
  by (auto simp add: rr_send_block_def Let_def split: if_splits option.splits)

lemma rr_send_block_returns:
  assumes "block = []" and "unat len \<le> length dest" and "drain_ok lib"
  shows "\<exists>r st. rr_send_block lib dest source block cid off len fl = Return r st"
  using assms by (simp add: rr_send_block_def Let_def split: option.splits)

text \<open>
  Claim C10 (send_block atomicity): whenever \<open>rr_send_block\<close> returns failure, whichever
  step failed (space reservation, copy-out, commit, appending to the destination), the
  source buffer is unchanged; when it returns success the source has lost exactly its
  first \<open>len\<close> bytes, and these bytes follow the header at the end of the destination.
\<close>

theorem rr_send_block_atomic:
  assumes "rr_send_block lib dest source block cid off len fl = Return r (dest', source', block')"
  shows "(r \<noteq> 0 \<longrightarrow> source' = source \<and> dest' = dest)
    \<and> (r = 0 \<longrightarrow> unat len \<le> length source \<and> source' = drop (unat len) source
          \<and> length source' = length source - unat len
          \<and> dest' = dest @ rr_write_header \<lparr> h_ckt_id = cid, h_offset = off,
                h_length = len, h_flags = fl \<rparr> @ take (unat len) source)"
  using assms
  by (auto simp add: rr_send_block_def Let_def split: if_splits option.splits)

theorem rr_send_block_atomic_witness:
  "rr_send_block lib_ok [7, 8] [1, 2, 3] [] 5 0 2 0
     = Return 0 ([7, 8] @ rr_write_header \<lparr> h_ckt_id = 5, h_offset = 0, h_length = 2,
          h_flags = 0 \<rparr> @ [1, 2], [3], [])
   \<and> rr_send_block (lib_ok \<lparr> add_ok := False \<rparr>) [7, 8] [1, 2, 3] [] 5 0 2 0
     = Return (- 1) ([7, 8], [1, 2, 3], [])
   \<and> rr_send_block lib_ok [7, 8] [1] [] 5 0 2 0 = Return (- 1) ([7, 8], [1], [])"
proof -
  have a: "rr_send_block lib_ok [7, 8] [1, 2, 3] [] 5 0 2 0
     = Return 0 ([7, 8] @ rr_write_header \<lparr> h_ckt_id = 5, h_offset = 0, h_length = 2,
          h_flags = 0 \<rparr> @ [1, 2], [3], [])"
    by (simp add: rr_send_block_def lib_ok_def RR_WIRE_HDR_LEN_def)
  have b: "rr_send_block (lib_ok \<lparr> add_ok := False \<rparr>) [7, 8] [1, 2, 3] [] 5 0 2 0
     = Return (- 1) ([7, 8], [1, 2, 3], [])"
    by (simp add: rr_send_block_def lib_ok_def RR_WIRE_HDR_LEN_def)
  have c: "rr_send_block lib_ok [7, 8] [1] [] 5 0 2 0 = Return (- 1) ([7, 8], [1], [])"
    by (simp add: rr_send_block_def lib_ok_def RR_WIRE_HDR_LEN_def)
  from rr_send_block_atomic [OF a] rr_send_block_atomic [OF b] rr_send_block_atomic [OF c]
  show ?thesis using a b c by simp
qed

section \<open>Properties of the dispatcher\<close>

lemmas send_eval =
  roundrobin_circuit_send_def roundrobin_circuit_send_eof_def rr_send_blocks_def rr_send_block_def
  one_downstream_def two_downstreams_def roundrobin_circuit_add_downstream_def
  roundrobin_circuit_create_def idle_conn_def lib_ok_def RR_WIRE_HDR_LEN_def
  advance_next_down_def send_eof_finish_def RR_F_SYN_def RR_F_FIN_def RR_F_CHAFF_def
  roundrobin_circuit_drop_downstream_def smartlist_remove_def Let_def

text \<open>Marking the downstreams as closed for sending leaves their outbound buffers alone.\<close>

lemma outbound_after_eof_marks:
  "outbound (fold (\<lambda>conn cs. cs (conn := (cs conn) \<lparr> eof_sent := True \<rparr>)) ds cs0 x)
    = outbound (cs0 x)"
  by (induction ds arbitrary: cs0) auto

text \<open>Whenever \<open>roundrobin_circuit_send_eof\<close> succeeds with nothing pending, the block it
  has written carries the flags \<open>RR_F_FIN|RR_F_CHAFF\<close> and \<open>next_block_size\<close> random
  bytes, and \<open>sent_syn\<close> is what it was, whether a SYN had been sent or not.\<close>

lemma send_eof_chaff_flags:
  assumes "xmit_pending ckt = []" and "up_input ckt = []"
    and "roundrobin_circuit_send_eof lib rs rb ckt cs = Some (Return 0 (ckt1, cs1))"
    and "downstreams ckt \<noteq> []"
  shows "outbound (cs1 (downstreams ckt ! unat (next_down ckt)))
      = outbound (cs (downstreams ckt ! unat (next_down ckt)))
        @ rr_write_header \<lparr> h_ckt_id = circuit_id ckt, h_offset = send_offset ckt,
            h_length = next_block_size ckt, h_flags = RR_F_FIN OR RR_F_CHAFF \<rparr>
        @ map rb [0 ..< unat (next_block_size ckt)]
    \<and> sent_syn ckt1 = sent_syn ckt"
  using assms
  by (auto simp add: roundrobin_circuit_send_eof_def rr_send_block_def send_eof_finish_def
      outbound_after_eof_marks Let_def
      split: if_splits option.splits outcome.splits list.splits prod.splits)

text \<open>
  Claim C3 (empty-stream EOF chaff carries SYN), evaluated on the code: on a new circuit
  with one downstream, on which nothing was ever sent, \<open>roundrobin_circuit_send_eof\<close>
  puts one chaff block on the downstream whose flags are \<open>RR_F_FIN|RR_F_CHAFF\<close>, without
  SYN, and \<open>sent_syn\<close> stays false.
\<close>

theorem eof_chaff_block_has_no_syn:
  "\<exists>ckt conns.
     roundrobin_circuit_send_eof lib_ok [100] (\<lambda>_. 0) one_downstream (\<lambda>_. idle_conn)
       = Some (Return 0 (ckt, conns))
     \<and> outbound (conns 0) = rr_write_header
          \<lparr> h_ckt_id = 0, h_offset = 0, h_length = 0, h_flags = RR_F_FIN OR RR_F_CHAFF \<rparr>
     \<and> \<not> sent_syn ckt \<and> sent_fin ckt \<and> eof_sent (conns 0)"
  by (simp add: send_eval)

text \<open>
  Claim C4 (block-size range), evaluated on the code: on a new circuit with one
  downstream and three bytes from upstream, \<open>roundrobin_circuit_send\<close> emits a first block
  of length \<open>0\<close>, the \<open>next_block_size\<close> the circuit was created with, carrying SYN and
  no payload; the three bytes stay pending and the size drawn next is used from then on.
\<close>

theorem first_block_has_length_zero:
  "\<exists>ckt conns.
     roundrobin_circuit_send lib_ok [100] (one_downstream \<lparr> up_input := [1, 2, 3] \<rparr>)
         (\<lambda>_. idle_conn)
       = Some (Return 0 (ckt, conns))
     \<and> next_block_size one_downstream = 0
     \<and> outbound (conns 0) = rr_write_header
          \<lparr> h_ckt_id = 0, h_offset = 0, h_length = 0, h_flags = RR_F_SYN \<rparr>
     \<and> xmit_pending ckt = [1, 2, 3] \<and> next_block_size ckt = 100"
  by (simp add: send_eval)

text \<open>Dropping a downstream leaves the round-robin index as it was.\<close>

lemma drop_keeps_next_down:
  "next_down (roundrobin_circuit_drop_downstream ckt conn) = next_down ckt"
  by (simp add: roundrobin_circuit_drop_downstream_def Let_def)

text \<open>
  Claim C5 (round-robin index after a drop), evaluated on the code: a circuit with
  downstreams \<open>0\<close> and \<open>1\<close> sends one block, so that \<open>next_down\<close> is \<open>1\<close>; then
  downstream \<open>1\<close> is dropped. The index is still \<open>1\<close> with one downstream left, and the
  next emission reads the list outside its range.
\<close>

theorem next_down_out_of_range_after_drop:
  "\<exists>ckt conns.
     roundrobin_circuit_send lib_ok [100] (two_downstreams \<lparr> up_input := [1, 2, 3] \<rparr>)
         (\<lambda>_. idle_conn)
       = Some (Return 0 (ckt, conns))
     \<and> downstreams ckt = [0, 1] \<and> next_down ckt = 1
     \<and> downstreams (roundrobin_circuit_drop_downstream ckt 1) = [0]
     \<and> next_down (roundrobin_circuit_drop_downstream ckt 1) = 1
     \<and> roundrobin_circuit_send lib_ok [100]
           ((roundrobin_circuit_drop_downstream ckt 1) \<lparr> up_input := replicate 100 5 \<rparr>) conns
         = Some (Crash IndexOutOfRange)"
  by (simp add: send_eval)

section \<open>Properties of the receive path\<close>

lemmas recv_eval =
  roundrobin_conn_recv_def arrival_def first_block_def idle_conn_def
  RR_MIN_BLOCK_def RR_WIRE_HDR_LEN_def peek_written_header rr_find_or_make_circuit_def
  circuit_add_downstream_def lib_ok_def recv_on_circuit_def roundrobin_circuit_create_def
  roundrobin_circuit_add_downstream_def length_rr_write_header RR_F_SYN_def RR_F_FIN_def
  RR_F_CHAFF_def rr_reassemble_block_def has_flag_def syn_rejected_def fin_rejected_def
  plain_rejected_def rr_push_to_upstream_def evbuffer_remove_buffer_def Let_def

text \<open>The circuit that \<open>rr_find_or_make_circuit\<close> makes for an unknown id is entered in
  the table under that id and bound to the connection, and its own \<open>circuit_id\<close> is
  \<open>0\<close>.\<close>

lemma made_circuit_has_id_zero:
  assumes "table w cid = None"
    and "rr_find_or_make_circuit lib new w conn cid = Return 0 w1"
  shows "table w1 cid = Some new \<and> conn_circuit (conns w1 conn) = Some new
    \<and> circuit_id (heap w1 new) = 0"
  using assms
  by (auto simp add: rr_find_or_make_circuit_def circuit_add_downstream_def
      roundrobin_circuit_add_downstream_def roundrobin_circuit_create_def split: if_splits)

text \<open>A complete block whose circuit id is not the circuit's own ends the receive loop
  with \<open>-1\<close>.\<close>

lemma recv_loop_refuses_other_id:
  assumes "rr_peek_header input = Some hdr"
    and "RR_MIN_BLOCK + unat (h_length hdr) \<le> length input"
    and "circuit_id ckt \<noteq> h_ckt_id hdr"
  shows "rr_recv_loop lib input ckt = (- 1, input, ckt)"
  using assms by (subst rr_recv_loop.simps) (simp add: Let_def)

text \<open>
  Claim C1 (demultiplexing after circuit creation), evaluated on the code: a first block
  for circuit id \<open>1\<close> arrives on an unattached connection. The circuit is created, the
  table entry for \<open>1\<close> is inserted and the connection is attached, but the circuit's own
  \<open>circuit_id\<close> is still \<open>0\<close>, so the same call refuses the block at the circuit-id
  check and returns \<open>-1\<close>; so does the next call on the attached connection.
\<close>

theorem new_circuit_refuses_its_own_id:
  "is_Return (roundrobin_conn_recv lib_ok 7 (arrival (first_block 1 RR_F_SYN)) 0)
   \<and> status (roundrobin_conn_recv lib_ok 7 (arrival (first_block 1 RR_F_SYN)) 0) = - 1
   \<and> table (state (roundrobin_conn_recv lib_ok 7 (arrival (first_block 1 RR_F_SYN)) 0)) 1
        = Some 7
   \<and> conn_circuit
        (conns (state (roundrobin_conn_recv lib_ok 7 (arrival (first_block 1 RR_F_SYN)) 0)) 0)
        = Some 7
   \<and> downstreams
        (heap (state (roundrobin_conn_recv lib_ok 7 (arrival (first_block 1 RR_F_SYN)) 0)) 7)
        = [0]
   \<and> circuit_id
        (heap (state (roundrobin_conn_recv lib_ok 7 (arrival (first_block 1 RR_F_SYN)) 0)) 7)
        = 0
   \<and> status (roundrobin_conn_recv lib_ok 8
        (state (roundrobin_conn_recv lib_ok 7 (arrival (first_block 1 RR_F_SYN)) 0)) 0) = - 1"
  by (simp add: recv_eval)

text \<open>A complete block with payload for the circuit ends the receive loop with \<open>-1\<close>
  once header and payload are off the inbound buffer: the byte count that
  \<open>evbuffer_remove_buffer\<close> returns is taken for a failure.\<close>

lemma recv_loop_refuses_payload:
  assumes "rr_peek_header input = Some hdr"
    and "RR_MIN_BLOCK + unat (h_length hdr) \<le> length input"
    and "circuit_id ckt = h_ckt_id hdr"
    and "new_ok lib" and "drain_ok lib" and "remove_ok lib"
    and "h_length hdr \<noteq> 0"
  shows "rr_recv_loop lib input ckt
    = (- 1, drop (RR_WIRE_HDR_LEN + unat (h_length hdr)) input, ckt)"
proof -
  have pos: "0 < unat (h_length hdr)"
    using assms(7) by (simp add: unat_gt_0)
  then have moved: "evbuffer_remove_buffer lib (drop RR_WIRE_HDR_LEN input) []
      (unat (h_length hdr))
    = (int (unat (h_length hdr)), drop (RR_WIRE_HDR_LEN + unat (h_length hdr)) input,
       take (unat (h_length hdr)) (drop RR_WIRE_HDR_LEN input))"
    using assms(2,6)
    by (simp add: evbuffer_remove_buffer_def RR_MIN_BLOCK_def RR_WIRE_HDR_LEN_def add.commute)
  have nonzero: "uint (h_length hdr) \<noteq> 0"
    using assms(7) by (simp add: uint_0_iff)
  show ?thesis
    using assms(1-5) nonzero
    by (subst rr_recv_loop.simps) (simp add: Let_def moved)
qed



text \<open>
  Claim C6 as stated fails. A stream ends with a block carrying SYN and FIN; then a
  second FIN for the same circuit arrives on another connection. The queue is empty, so
  the second FIN is queued; it sits at \<open>recv_offset\<close> and a SYN has been received, so
  the conditions for delivery hold, and \<open>rr_push_to_upstream\<close> stops at the assertion
  that no FIN was received before. And when the append to the upstream buffer fails, an
  element that meets the conditions is not delivered: the call returns \<open>-1\<close>, with
  \<open>received_syn\<close> set.
\<close>

theorem second_fin_stops_at_assertion:
  "roundrobin_conn_recv lib_ok 8
      (more_input
        (state (roundrobin_conn_recv lib_ok 7
           (arrival (first_block 0 (RR_F_SYN OR RR_F_FIN))) 0))
        1 (first_block 0 RR_F_FIN)) 1
    = Crash AssertFailed
   \<and> e_offset (hd (reassembly_queue fin_after_fin)) = recv_offset fin_after_fin
   \<and> received_syn fin_after_fin
   \<and> rr_push_to_upstream lib_ok fin_after_fin = Crash AssertFailed
   \<and> e_offset (hd (reassembly_queue syn_fin_queued)) = recv_offset syn_fin_queued
   \<and> has_flag (e_flags (hd (reassembly_queue syn_fin_queued))) RR_F_SYN
   \<and> rr_push_to_upstream (lib_ok \<lparr> add_ok := False \<rparr>) syn_fin_queued
       = Return (- 1) (syn_fin_queued \<lparr> received_syn := True \<rparr>)"
  by (simp add: recv_eval more_input_def fin_after_fin_def syn_fin_queued_def)

text \<open>
  Claim C6, as the code has it (upstream delivery policy): \<open>rr_push_to_upstream\<close> looks
  at the first element of the queue only. With an empty queue, or a first element whose
  offset is not \<open>recv_offset\<close>, or one without SYN while no SYN was received, the call
  returns \<open>0\<close> and the circuit is unchanged. Otherwise, provided that the append to the
  upstream buffer succeeds and that the assertions of the function hold (an element with
  FIN comes when no FIN was received before and is the last of the queue; the element
  behind the delivered one does not start at the new \<open>recv_offset\<close>), the call returns
  \<open>0\<close>, the payload is appended to the upstream output, \<open>recv_offset\<close> advances by the
  length of the element, \<open>received_syn\<close> is set, a FIN sets \<open>received_fin\<close> and signals
  end of stream upstream, and exactly that element leaves the queue.
\<close>

theorem rr_push_to_upstream_policy:
  "(reassembly_queue ckt = [] \<longrightarrow> rr_push_to_upstream lib ckt = Return 0 ckt)
   \<and> (\<forall>ready rest. reassembly_queue ckt = ready # rest \<longrightarrow>
        (\<not> (e_offset ready = recv_offset ckt
              \<and> (received_syn ckt \<or> has_flag (e_flags ready) RR_F_SYN))
           \<longrightarrow> rr_push_to_upstream lib ckt = Return 0 ckt)
      \<and> (e_offset ready = recv_offset ckt
            \<and> (received_syn ckt \<or> has_flag (e_flags ready) RR_F_SYN)
            \<and> add_ok lib
            \<and> (has_flag (e_flags ready) RR_F_FIN \<longrightarrow> \<not> received_fin ckt \<and> rest = [])
            \<and> (rest = [] \<or> e_offset (hd rest) \<noteq> recv_offset ckt + ucast (e_length ready))
           \<longrightarrow> rr_push_to_upstream lib ckt =
                 Return 0 (ckt \<lparr> up_output := up_output ckt @ e_data ready,
                     up_eof := (up_eof ckt \<or> has_flag (e_flags ready) RR_F_FIN),
                     reassembly_queue := rest,
                     recv_offset := recv_offset ckt + ucast (e_length ready),
                     received_syn := True,
                     received_fin := (received_fin ckt \<or> has_flag (e_flags ready) RR_F_FIN) \<rparr>)))"
  by (auto simp add: rr_push_to_upstream_def Let_def)

theorem rr_push_to_upstream_policy_witness:
  "rr_push_to_upstream lib_ok roundrobin_circuit_create = Return 0 roundrobin_circuit_create
   \<and> rr_push_to_upstream lib_ok early_block_queued = Return 0 early_block_queued
   \<and> rr_push_to_upstream lib_ok syn_fin_queued =
        Return 0 (roundrobin_circuit_create \<lparr> up_output := [1, 2], up_eof := True,
          recv_offset := 2, received_syn := True, received_fin := True \<rparr>)"
proof -
  have empty: "reassembly_queue roundrobin_circuit_create = []"
    by (simp add: roundrobin_circuit_create_def)
  have early: "reassembly_queue early_block_queued
      = [\<lparr> e_data = [1, 2], e_offset = 5, e_length = 2, e_flags = 0 \<rparr>]"
    "\<not> (e_offset \<lparr> e_data = [1, 2], e_offset = 5, e_length = 2, e_flags = 0 \<rparr>
          = recv_offset early_block_queued
        \<and> (received_syn early_block_queued
            \<or> has_flag (e_flags \<lparr> e_data = [1, 2], e_offset = 5, e_length = 2,
                 e_flags = 0 \<rparr>) RR_F_SYN))"
    by (simp_all add: early_block_queued_def roundrobin_circuit_create_def)
  have ready: "reassembly_queue syn_fin_queued
      = [\<lparr> e_data = [1, 2], e_offset = 0, e_length = 2, e_flags = RR_F_SYN OR RR_F_FIN \<rparr>]"
    "e_offset \<lparr> e_data = [1, 2], e_offset = 0, e_length = 2, e_flags = RR_F_SYN OR RR_F_FIN \<rparr>
        = recv_offset syn_fin_queued"
    "has_flag (e_flags \<lparr> e_data = [1, 2], e_offset = 0, e_length = 2,
        e_flags = RR_F_SYN OR RR_F_FIN \<rparr>) RR_F_SYN"
    "has_flag (e_flags \<lparr> e_data = [1, 2], e_offset = 0, e_length = 2,
        e_flags = RR_F_SYN OR RR_F_FIN \<rparr>) RR_F_FIN"
    "add_ok lib_ok" "\<not> received_fin syn_fin_queued"
    by (simp_all add: syn_fin_queued_def roundrobin_circuit_create_def has_flag_def
        RR_F_SYN_def RR_F_FIN_def lib_ok_def)
  have 1: "rr_push_to_upstream lib_ok roundrobin_circuit_create
      = Return 0 roundrobin_circuit_create"
    using rr_push_to_upstream_policy [of roundrobin_circuit_create lib_ok] empty by blast
  have 2: "rr_push_to_upstream lib_ok early_block_queued = Return 0 early_block_queued"
    using rr_push_to_upstream_policy [of early_block_queued lib_ok] early by blast
  have 3: "rr_push_to_upstream lib_ok syn_fin_queued =
        Return 0 (syn_fin_queued \<lparr> up_output := up_output syn_fin_queued @ [1, 2],
                     up_eof := True, reassembly_queue := [],
                     recv_offset := recv_offset syn_fin_queued + ucast (2 :: 16 word),
                     received_syn := True, received_fin := True \<rparr>)"
    using rr_push_to_upstream_policy [of syn_fin_queued lib_ok] ready by simp
  show ?thesis
    using 1 2 3 by (simp add: syn_fin_queued_def roundrobin_circuit_create_def)
qed

text \<open>When the conditions for delivery hold, the call fails only if the append to the
  upstream buffer does, and stops only at one of the source's assertions.\<close>

lemma rr_push_to_upstream_other_outcomes:
  assumes "reassembly_queue ckt = ready # rest"
    and "e_offset ready = recv_offset ckt"
    and "received_syn ckt \<or> has_flag (e_flags ready) RR_F_SYN"
  shows "\<not> add_ok lib \<Longrightarrow>
           rr_push_to_upstream lib ckt = Return (- 1) (ckt \<lparr> received_syn := True \<rparr>)"
    and "add_ok lib \<Longrightarrow> has_flag (e_flags ready) RR_F_FIN \<Longrightarrow> received_fin ckt \<or> rest \<noteq> [] \<Longrightarrow>
           rr_push_to_upstream lib ckt = Crash AssertFailed"
    and "add_ok lib \<Longrightarrow> rest \<noteq> [] \<Longrightarrow>
           e_offset (hd rest) = recv_offset ckt + ucast (e_length ready) \<Longrightarrow>
           rr_push_to_upstream lib ckt = Crash AssertFailed"
  using assms by (auto simp add: rr_push_to_upstream_def Let_def)

text \<open>The chaff block of claim C3 at the receiver: on a circuit that has seen no SYN, a
  FIN without SYN at offset \<open>0\<close> is queued and stays there; nothing is signalled
  upstream.\<close>

lemma fin_without_syn_not_delivered:
  "rr_reassemble_block lib_ok []
      \<lparr> h_ckt_id = 0, h_offset = 0, h_length = 0, h_flags = RR_F_FIN OR RR_F_CHAFF \<rparr>
      roundrobin_circuit_create
    = (0, roundrobin_circuit_create \<lparr> reassembly_queue :=
          [\<lparr> e_data = [], e_offset = 0, e_length = 0, e_flags = RR_F_FIN OR RR_F_CHAFF \<rparr>] \<rparr>)"
  "rr_push_to_upstream lib_ok (roundrobin_circuit_create \<lparr> reassembly_queue :=
          [\<lparr> e_data = [], e_offset = 0, e_length = 0, e_flags = RR_F_FIN OR RR_F_CHAFF \<rparr>] \<rparr>)
    = Return 0 (roundrobin_circuit_create \<lparr> reassembly_queue :=
          [\<lparr> e_data = [], e_offset = 0, e_length = 0, e_flags = RR_F_FIN OR RR_F_CHAFF \<rparr>] \<rparr>)"
  by (simp_all add: rr_reassemble_block_def rr_push_to_upstream_def has_flag_def
      syn_rejected_def fin_rejected_def plain_rejected_def roundrobin_circuit_create_def
      RR_F_SYN_def RR_F_FIN_def RR_F_CHAFF_def lib_ok_def Let_def)

section \<open>Properties of the reassembly queue\<close>




end
